theory Spec2Isabelle
  imports Complex_Main
begin

section \<open>JavaScript values\<close>

text \<open>
  The program is \<^verbatim>\<open>frontend/app.js\<close>. It reads JSON documents from two endpoints, so
  its inputs are arbitrary JSON values; they are modelled with the coercions of the
  language that the program applies to them (\<^verbatim>\<open>||\<close>, \<^verbatim>\<open>??\<close>, \<^verbatim>\<open>?.\<close>, \<^verbatim>\<open>!\<close>,
  template literals, \<^verbatim>\<open>*\<close>, array destructuring).

  A number is an IEEE double: a real, one of the two infinities, or NaN. The only
  arithmetic of the program is \<^verbatim>\<open>mag * 2\<close>, which is exact on doubles except for
  overflow, written out in \<open>times2\<close>. The two zeros are one value here: the program
  never divides and never prints a zero it computed.
\<close>

datatype jsnum = NaN | NegInf | Fin real | PosInf

datatype jsval =
    VUndefined
  | VNull
  | VBool bool
  | VNum jsnum
  | VStr string
  | VArr "jsval list"
  | VObj "(string \<times> jsval) list"

text \<open>
  Thrown values: \<^verbatim>\<open>new Error(msg)\<close>, the engine's TypeError and SyntaxError, and any
  other exception of the browser (a DOMException, say), by its name and its message.
\<close>

datatype js_error = Error string | TypeError string | SyntaxError string | OtherError string string

fun message :: "js_error \<Rightarrow> string" where
  "message (Error m) = m"
| "message (TypeError m) = m"
| "message (SyntaxError m) = m"
| "message (OtherError n m) = m"

text \<open>ToBoolean: what \<^verbatim>\<open>!x\<close>, \<^verbatim>\<open>x || y\<close> and \<^verbatim>\<open>x ? a : b\<close> test.\<close>

fun truthy :: "jsval \<Rightarrow> bool" where
  "truthy VUndefined = False"
| "truthy VNull = False"
| "truthy (VBool b) = b"
| "truthy (VNum n) = (n \<noteq> NaN \<and> n \<noteq> Fin 0)"
| "truthy (VStr s) = (s \<noteq> [])"
| "truthy (VArr xs) = True"
| "truthy (VObj kvs) = True"

fun nullish :: "jsval \<Rightarrow> bool" where
  "nullish VUndefined = True"
| "nullish VNull = True"
| "nullish v = False"

text \<open>\<^verbatim>\<open>a || b\<close> and \<^verbatim>\<open>a ?? b\<close> (both operands are values already).\<close>

definition js_or :: "jsval \<Rightarrow> jsval \<Rightarrow> jsval" where
  "js_or a b = (if truthy a then a else b)"

definition js_coalesce :: "jsval \<Rightarrow> jsval \<Rightarrow> jsval" where
  "js_coalesce a b = (if nullish a then b else a)"

text \<open>
  Reading a property of a value that is neither undefined nor null. The program reads
  only the names features, geometry, type, coordinates, properties, name, id, mag, place,
  time and length; none of them is inherited from a prototype except the length of an
  array or string. A parsed JSON object has each key once. The length of a string counts
  the characters of the model's string.
\<close>

fun property :: "jsval \<Rightarrow> string \<Rightarrow> jsval" where
  "property (VObj kvs) k = (case map_of kvs k of Some v \<Rightarrow> v | None \<Rightarrow> VUndefined)"
| "property (VArr xs) k = (if k = ''length'' then VNum (Fin (real (length xs))) else VUndefined)"
| "property (VStr s) k = (if k = ''length'' then VNum (Fin (real (length s))) else VUndefined)"
| "property v k = VUndefined"

text \<open>\<^verbatim>\<open>o.k\<close> throws a TypeError on undefined and null; \<^verbatim>\<open>o?.k\<close> gives undefined there.\<close>

definition get :: "jsval \<Rightarrow> string \<Rightarrow> js_error + jsval" where
  "get v k =
     (if nullish v then Inl (TypeError (''Cannot read properties of undefined or null (reading '' @ k @ '')''))
      else Inr (property v k))"

definition opt_get :: "jsval \<Rightarrow> string \<Rightarrow> jsval" where
  "opt_get v k = (if nullish v then VUndefined else property v k)"

text \<open>
  \<^verbatim>\<open>const [lon, lat] = c\<close>: \<open>c\<close> must be iterable. An array gives its first two
  elements (undefined where it is shorter), a string its first two characters, anything
  else throws a TypeError.
\<close>

definition elem :: "jsval list \<Rightarrow> nat \<Rightarrow> jsval" where
  "elem xs i = (if i < length xs then xs ! i else VUndefined)"

definition destructure2 :: "jsval \<Rightarrow> js_error + (jsval \<times> jsval)" where
  "destructure2 c =
     (case c of
        VArr xs \<Rightarrow> Inr (elem xs 0, elem xs 1)
      | VStr s \<Rightarrow> Inr (elem (map (\<lambda>ch. VStr [ch]) s) 0, elem (map (\<lambda>ch. VStr [ch]) s) 1)
      | _ \<Rightarrow> Inl (TypeError ''value is not iterable''))"

section \<open>The platform\<close>

text \<open>
  What the browser supplies and the program only calls: the page's location, the
  conversions between numbers and strings, the locale's date format, and the network.
  They are parameters of the model; every theorem holds for all of them.
  \<^item> \<open>fetch\<close>: the response to a URL, or \<open>Inl e\<close> when the promise of \<^verbatim>\<open>fetch\<close>
    rejects with \<open>e\<close> (no response arrives; browsers reject with a TypeError);
  \<^item> \<open>json\<close> of a response: the parsed body, or \<open>Inl e\<close> when \<^verbatim>\<open>r.json()\<close> rejects
    with \<open>e\<close> (a SyntaxError when the body is not JSON, another exception when the
    body does not arrive);
  \<^item> \<open>dateToLocaleString v\<close>: \<^verbatim>\<open>new Date(v).toLocaleString()\<close>.
\<close>

record response =
  ok :: bool
  status :: nat
  statusText :: string
  json :: "js_error + jsval"

record platform =
  location_protocol :: string
  location_hostname :: string
  numberToString :: "jsnum \<Rightarrow> string"
  toFixed5 :: "jsnum \<Rightarrow> string"
  stringToNumber :: "string \<Rightarrow> jsnum"
  dateToLocaleString :: "jsval \<Rightarrow> js_error + string"
  fetch :: "string \<Rightarrow> js_error + response"

text \<open>
  ToString, as a template literal applies it. An array is joined with commas, undefined
  and null elements printing as nothing. A parsed object prints as \<^verbatim>\<open>[object Object]\<close>,
  unless it has a key \<^verbatim>\<open>toString\<close> of its own: the value there is not callable, the
  inherited \<^verbatim>\<open>valueOf\<close> returns the object, and the conversion throws.
\<close>

fun ToString :: "platform \<Rightarrow> jsval \<Rightarrow> js_error + string"
  and join :: "platform \<Rightarrow> jsval list \<Rightarrow> js_error + string" where
  "ToString P VUndefined = Inr ''undefined''"
| "ToString P VNull = Inr ''null''"
| "ToString P (VBool b) = Inr (if b then ''true'' else ''false'')"
| "ToString P (VNum n) = Inr (numberToString P n)"
| "ToString P (VStr s) = Inr s"
| "ToString P (VArr xs) = join P xs"
| "ToString P (VObj kvs) =
     (if map_of kvs ''toString'' \<noteq> None
      then Inl (TypeError ''Cannot convert object to primitive value'')
      else Inr ''[object Object]'')"
| "join P [] = Inr []"
| "join P [x] = (if nullish x then Inr [] else ToString P x)"
| "join P (x # y # ys) =
     (case (if nullish x then Inr [] else ToString P x) of
        Inl e \<Rightarrow> Inl e
      | Inr a \<Rightarrow> (case join P (y # ys) of Inl e \<Rightarrow> Inl e | Inr b \<Rightarrow> Inr (a @ '','' @ b)))"

text \<open>
  ToNumber, as \<^verbatim>\<open>*\<close> and \<^verbatim>\<open>Number(x)\<close> apply it. An array or object is first made
  a string (for both, \<^verbatim>\<open>valueOf\<close> gives no primitive and \<^verbatim>\<open>toString\<close> is tried next).
\<close>

definition ToNumber :: "platform \<Rightarrow> jsval \<Rightarrow> js_error + jsnum" where
  "ToNumber P v =
     (case v of
        VUndefined \<Rightarrow> Inr NaN
      | VNull \<Rightarrow> Inr (Fin 0)
      | VBool b \<Rightarrow> Inr (Fin (if b then 1 else 0))
      | VNum n \<Rightarrow> Inr n
      | VStr s \<Rightarrow> Inr (stringToNumber P s)
      | _ \<Rightarrow> (case ToString P v of Inl e \<Rightarrow> Inl e | Inr s \<Rightarrow> Inr (stringToNumber P s)))"

text \<open>
  \<^verbatim>\<open>x * 2\<close> on a number: exact on a double unless the product leaves the range,
  where it is an infinity.
\<close>

fun times2 :: "jsnum \<Rightarrow> jsnum" where
  "times2 NaN = NaN"
| "times2 NegInf = NegInf"
| "times2 PosInf = PosInf"
| "times2 (Fin r) =
     (if r * 2 \<ge> 2 ^ 1024 then PosInf
      else if r * 2 \<le> - (2 ^ 1024) then NegInf
      else Fin (r * 2))"

text \<open>The order of the numbers that are not NaN, and \<^verbatim>\<open>Math.min\<close>, \<^verbatim>\<open>Math.max\<close>.\<close>

fun num_le :: "jsnum \<Rightarrow> jsnum \<Rightarrow> bool" where
  "num_le NaN b = False"
| "num_le a NaN = False"
| "num_le NegInf b = True"
| "num_le a PosInf = True"
| "num_le (Fin a) (Fin b) = (a \<le> b)"
| "num_le (Fin a) NegInf = False"
| "num_le PosInf b = False"

definition Math_min :: "jsnum \<Rightarrow> jsnum \<Rightarrow> jsnum" where
  "Math_min a b = (if a = NaN \<or> b = NaN then NaN else if num_le a b then a else b)"

definition Math_max :: "jsnum \<Rightarrow> jsnum \<Rightarrow> jsnum" where
  "Math_max a b = (if a = NaN \<or> b = NaN then NaN else if num_le a b then b else a)"

section \<open>The page and the map\<close>

text \<open>
  The four layer groups of \<^verbatim>\<open>clusters\<close> are addressed by the four keys the program
  uses. A group holds the markers added to it; \<open>mapLayers\<close> tells whether the map has
  the group (\<^verbatim>\<open>map.hasLayer(clusters[key])\<close>). A marker is the position, the style
  and the popup it was made with, which is what Leaflet keeps when both coordinates are
  numbers; what Leaflet does with a position that is not a pair of numbers is its own
  and not followed here, and no example below has such a position.
\<close>

datatype cluster_key = mcd | starbucks | dg | quakes

datatype shape = Pin | Circle (radius: jsnum) (weight: real) (fillOpacity: real)

record marker =
  lat :: jsval
  lon :: jsval
  shape :: shape
  popup :: "string option"

text \<open>
  The state the program reads and writes: the text of the status element, the four
  checkboxes, the two inputs of the earthquake query, the layer groups, the map and its
  bounds (south, west, north, east), the console. \<open>fetched\<close> records the URLs requested,
  in order.
\<close>

record app =
  statusEl :: string
  layerMcd :: bool
  layerStar :: bool
  layerDG :: bool
  layerQuakes :: bool
  qHours :: string
  qMinMag :: string
  clusters :: "cluster_key \<Rightarrow> marker list"
  mapLayers :: "cluster_key \<Rightarrow> bool"
  mapBounds :: "jsnum \<times> jsnum \<times> jsnum \<times> jsnum"
  console :: "js_error list"
  fetched :: "string list"

definition API :: "platform \<Rightarrow> string" where
  "API P = location_protocol P @ ''//'' @ location_hostname P @ '':8088''"

definition setStatus :: "string \<Rightarrow> app \<Rightarrow> app" where
  "setStatus msg st = st\<lparr>statusEl := msg\<rparr>"

definition getBBox :: "platform \<Rightarrow> app \<Rightarrow> string" where
  "getBBox P st =
     (case mapBounds st of
        (south, west, north, east) \<Rightarrow>
          toFixed5 P south @ '','' @ toFixed5 P west @ '','' @ toFixed5 P north @ '','' @ toFixed5 P east)"

definition clearLayer :: "cluster_key \<Rightarrow> app \<Rightarrow> app" where
  "clearLayer key st =
     (let st1 = st\<lparr>clusters := (clusters st)(key := [])\<rparr>
      in if mapLayers st1 key then st1\<lparr>mapLayers := (mapLayers st1)(key := False)\<rparr> else st1)"

definition ensureLayer :: "cluster_key \<Rightarrow> app \<Rightarrow> app" where
  "ensureLayer key st =
     (if \<not> mapLayers st key then st\<lparr>mapLayers := (mapLayers st)(key := True)\<rparr> else st)"

definition addLayer :: "cluster_key \<Rightarrow> marker \<Rightarrow> app \<Rightarrow> app" where
  "addLayer key m st = st\<lparr>clusters := (clusters st)(key := clusters st key @ [m])\<rparr>"

text \<open>
  \<^verbatim>\<open>fetchJSON\<close>: the request is made; what a rejected \<^verbatim>\<open>fetch\<close> rejects with is
  passed on as it is; a response that is not ok throws
  \<^verbatim>\<open>new Error(`${r.status} ${r.statusText}`)\<close>; otherwise the result is that of
  \<^verbatim>\<open>r.json()\<close>, its rejection included.
\<close>

definition fetchJSON :: "platform \<Rightarrow> string \<Rightarrow> app \<Rightarrow> (js_error + jsval) \<times> app" where
  "fetchJSON P url st =
     (let st1 = st\<lparr>fetched := fetched st @ [url]\<rparr>
      in case fetch P url of
           Inl e \<Rightarrow> (Inl e, st1)
         | Inr r \<Rightarrow>
             if \<not> ok r
             then (Inl (Error (numberToString P (Fin (real (status r))) @ '' '' @ statusText r)), st1)
             else (json r, st1))"

text \<open>
  \<^verbatim>\<open>xs.forEach(f)\<close> with a callback that changes the state and may throw: the first
  exception ends the loop, and what was done before it stays done.
\<close>

fun forEach :: "('a \<Rightarrow> app \<Rightarrow> js_error option \<times> app) \<Rightarrow> 'a list \<Rightarrow> app \<Rightarrow> js_error option \<times> app" where
  "forEach f [] st = (None, st)"
| "forEach f (x # xs) st =
     (case f x st of
        (Some e, st1) \<Rightarrow> (Some e, st1)
      | (None, st1) \<Rightarrow> forEach f xs st1)"

text \<open>
  \<^verbatim>\<open>(gj.features || [])\<close> as the receiver of \<^verbatim>\<open>forEach\<close>: reading \<^verbatim>\<open>features\<close> throws
  when \<open>gj\<close> is null, and only an array has a \<^verbatim>\<open>forEach\<close> to call.
\<close>

definition featureList :: "jsval \<Rightarrow> js_error + jsval list" where
  "featureList gj =
     (case get gj ''features'' of
        Inl e \<Rightarrow> Inl e
      | Inr fs \<Rightarrow>
          (case js_or fs (VArr []) of
             VArr xs \<Rightarrow> Inr xs
           | _ \<Rightarrow> Inl (TypeError ''(gj.features || []).forEach is not a function'')))"

text \<open>The callback of \<^verbatim>\<open>addGeoJSONPointsToCluster\<close> (lines 56 to 62), for one feature.\<close>

definition geoJSONPoint ::
  "cluster_key \<Rightarrow> (jsval \<Rightarrow> js_error + string) option \<Rightarrow> jsval \<Rightarrow> app \<Rightarrow> js_error option \<times> app" where
  "geoJSONPoint clusterKey popupFn f st =
     (case get f ''geometry'' of
        Inl e \<Rightarrow> (Some e, st)
      | Inr g \<Rightarrow>
          if \<not> truthy g then (None, st)
          else (case get g ''type'' of
             Inl e \<Rightarrow> (Some e, st)
           | Inr t \<Rightarrow>
               if t \<noteq> VStr ''Point'' then (None, st)
               else (case get g ''coordinates'' of
                  Inl e \<Rightarrow> (Some e, st)
                | Inr c \<Rightarrow>
                    (case destructure2 c of
                       Inl e \<Rightarrow> (Some e, st)
                     | Inr (lon0, lat0) \<Rightarrow>
                         (let m = \<lparr>lat = lat0, lon = lon0, shape = Pin, popup = None\<rparr>
                          in case popupFn of
                               None \<Rightarrow> (None, addLayer clusterKey m st)
                             | Some pf \<Rightarrow>
                                 (case pf f of
                                    Inl e \<Rightarrow> (Some e, st)
                                  | Inr txt \<Rightarrow>
                                      (None, addLayer clusterKey (m\<lparr>popup := Some txt\<rparr>) st)))))))"

definition addGeoJSONPointsToCluster ::
  "jsval \<Rightarrow> cluster_key \<Rightarrow> (jsval \<Rightarrow> js_error + string) option \<Rightarrow> app \<Rightarrow> js_error option \<times> app" where
  "addGeoJSONPointsToCluster gj clusterKey popupFn st =
     (case featureList gj of
        Inl e \<Rightarrow> (Some e, st)
      | Inr xs \<Rightarrow> forEach (geoJSONPoint clusterKey popupFn) xs st)"

section \<open>Loading a brand\<close>

text \<open>
  The popup function that \<^verbatim>\<open>loadBrand\<close> passes (lines 69 to 72):
  \<^verbatim>\<open>name = f.properties?.name || 'Unknown'\<close>, then the template with
  \<^verbatim>\<open>f.properties?.id || ''\<close>.
\<close>

definition brandName :: "jsval \<Rightarrow> jsval" where
  "brandName ps = js_or (opt_get ps ''name'') (VStr ''Unknown'')"

definition brandId :: "jsval \<Rightarrow> jsval" where
  "brandId ps = js_or (opt_get ps ''id'') (VStr [])"

definition brandPopup :: "platform \<Rightarrow> jsval \<Rightarrow> js_error + string" where
  "brandPopup P f =
     (case get f ''properties'' of
        Inl e \<Rightarrow> Inl e
      | Inr ps \<Rightarrow>
          (case ToString P (brandName ps) of
             Inl e \<Rightarrow> Inl e
           | Inr nameText \<Rightarrow>
               (case ToString P (brandId ps) of
                  Inl e \<Rightarrow> Inl e
                | Inr idText \<Rightarrow> Inr (''<b>'' @ nameText @ ''</b><br><small>'' @ idText @ ''</small>''))))"

text \<open>\<^verbatim>\<open>${gj.features?.length || 0}\<close>, the count in the status line.\<close>

definition countText :: "platform \<Rightarrow> jsval \<Rightarrow> js_error + string" where
  "countText P gj =
     (case get gj ''features'' of
        Inl e \<Rightarrow> Inl e
      | Inr fs \<Rightarrow> ToString P (js_or (opt_get fs ''length'') (VNum (Fin 0))))"

definition loadBrand :: "platform \<Rightarrow> string \<Rightarrow> cluster_key \<Rightarrow> app \<Rightarrow> js_error option \<times> app" where
  "loadBrand P brand clusterKey st =
     (let bbox = getBBox P st;
          st1 = setStatus (''Loading '' @ brand @ ''...'') st
      in case fetchJSON P (API P @ ''/api/osm/brand?brand='' @ brand @ ''&bbox='' @ bbox) st1 of
           (Inl e, st2) \<Rightarrow> (Some e, st2)
         | (Inr gj, st2) \<Rightarrow>
             (case addGeoJSONPointsToCluster gj clusterKey (Some (brandPopup P)) st2 of
                (Some e, st3) \<Rightarrow> (Some e, st3)
              | (None, st3) \<Rightarrow>
                  (let st4 = ensureLayer clusterKey st3
                   in case countText P gj of
                        Inl e \<Rightarrow> (Some e, st4)
                      | Inr n \<Rightarrow> (None, setStatus (''Loaded '' @ brand @ '': '' @ n) st4))))"

section \<open>Loading the earthquakes\<close>

text \<open>
  \<^verbatim>\<open>Number(qHours.value || 24)\<close> and \<^verbatim>\<open>Number(qMinMag.value || 2.5)\<close>: the value of an
  input element is a string.
\<close>

definition quakeHours :: "platform \<Rightarrow> app \<Rightarrow> js_error + jsnum" where
  "quakeHours P st = ToNumber P (js_or (VStr (qHours st)) (VNum (Fin 24)))"

definition quakeMinMag :: "platform \<Rightarrow> app \<Rightarrow> js_error + jsnum" where
  "quakeMinMag P st = ToNumber P (js_or (VStr (qMinMag st)) (VNum (Fin 2.5)))"

text \<open>The URL of line 83, from the two numbers and the bounding box.\<close>

definition quakesUrl :: "platform \<Rightarrow> jsnum \<Rightarrow> jsnum \<Rightarrow> string \<Rightarrow> string" where
  "quakesUrl P hours minmag bbox =
     API P @ ''/api/usgs/quakes?hours='' @ numberToString P hours
     @ ''&minmag='' @ numberToString P minmag @ ''&bbox='' @ bbox"

text \<open>
  The constants of the callback (lines 89 to 91) and the radius option (line 94), as
  functions of \<^verbatim>\<open>f.properties\<close>.
\<close>

definition quakeMag :: "jsval \<Rightarrow> jsval" where
  "quakeMag ps = js_coalesce (opt_get ps ''mag'') (VStr ''?'')"

definition quakePlace :: "jsval \<Rightarrow> jsval" where
  "quakePlace ps = js_coalesce (opt_get ps ''place'') (VStr [])"

definition quakeTime :: "platform \<Rightarrow> jsval \<Rightarrow> js_error + string" where
  "quakeTime P ps =
     (if truthy (opt_get ps ''time'')
      then (case get ps ''time'' of Inl e \<Rightarrow> Inl e | Inr t \<Rightarrow> dateToLocaleString P t)
      else Inr [])"

definition quakeRadius :: "platform \<Rightarrow> jsval \<Rightarrow> js_error + jsnum" where
  "quakeRadius P mag =
     (case ToNumber P mag of
        Inl e \<Rightarrow> Inl e
      | Inr n \<Rightarrow> Inr (Math_max (Fin 4) (Math_min (Fin 16) (times2 n))))"

definition quakePopup :: "platform \<Rightarrow> jsval \<Rightarrow> jsval \<Rightarrow> string \<Rightarrow> js_error + string" where
  "quakePopup P mag place time =
     (case ToString P mag of
        Inl e \<Rightarrow> Inl e
      | Inr magText \<Rightarrow>
          (case ToString P place of
             Inl e \<Rightarrow> Inl e
           | Inr placeText \<Rightarrow>
               Inr (''<b>M '' @ magText @ ''</b><br>'' @ placeText @ ''<br><small>'' @ time @ ''</small>'')))"

text \<open>The callback of \<^verbatim>\<open>loadQuakes\<close> (lines 85 to 100), for one feature.\<close>

definition quakePoint :: "platform \<Rightarrow> jsval \<Rightarrow> app \<Rightarrow> js_error option \<times> app" where
  "quakePoint P f st =
     (case get f ''geometry'' of
        Inl e \<Rightarrow> (Some e, st)
      | Inr g \<Rightarrow>
          (let c = opt_get g ''coordinates''
           in if \<not> truthy c then (None, st)
              else (case destructure2 c of
                 Inl e \<Rightarrow> (Some e, st)
               | Inr (lon0, lat0) \<Rightarrow>
                   (case get f ''properties'' of
                      Inl e \<Rightarrow> (Some e, st)
                    | Inr ps \<Rightarrow>
                        (case quakeTime P ps of
                           Inl e \<Rightarrow> (Some e, st)
                         | Inr time \<Rightarrow>
                             (case quakeRadius P (quakeMag ps) of
                                Inl e \<Rightarrow> (Some e, st)
                              | Inr r \<Rightarrow>
                                  (case quakePopup P (quakeMag ps) (quakePlace ps) time of
                                     Inl e \<Rightarrow> (Some e, st)
                                   | Inr txt \<Rightarrow>
                                       (None, addLayer quakes
                                          \<lparr>lat = lat0, lon = lon0,
                                           shape = Circle r 1 0.6, popup = Some txt\<rparr> st))))))))"

definition loadQuakes :: "platform \<Rightarrow> app \<Rightarrow> js_error option \<times> app" where
  "loadQuakes P st =
     (let bbox = getBBox P st
      in case quakeHours P st of
           Inl e \<Rightarrow> (Some e, st)
         | Inr hours \<Rightarrow>
       (case quakeMinMag P st of
           Inl e \<Rightarrow> (Some e, st)
         | Inr minmag \<Rightarrow>
       (let st1 = setStatus ''Loading earthquakes...'' st
        in case fetchJSON P (quakesUrl P hours minmag bbox) st1 of
             (Inl e, st2) \<Rightarrow> (Some e, st2)
           | (Inr gj, st2) \<Rightarrow>
               (case featureList gj of
                  Inl e \<Rightarrow> (Some e, st2)
                | Inr xs \<Rightarrow>
                    (case forEach (quakePoint P) xs st2 of
                       (Some e, st3) \<Rightarrow> (Some e, st3)
                     | (None, st3) \<Rightarrow>
                         (let st4 = ensureLayer quakes st3
                          in case countText P gj of
                               Inl e \<Rightarrow> (Some e, st4)
                             | Inr n \<Rightarrow> (None, setStatus (''Loaded earthquakes: '' @ n) st4)))))))"

section \<open>Refresh\<close>

text \<open>Lines 108 to 111: the layers that are not selected are cleared.\<close>

definition clearing :: "app \<Rightarrow> app" where
  "clearing st =
     (let st1 = (if \<not> layerMcd st then clearLayer mcd st else st);
          st2 = (if \<not> layerStar st1 then clearLayer starbucks st1 else st1);
          st3 = (if \<not> layerDG st2 then clearLayer dg st2 else st2)
      in if \<not> layerQuakes st3 then clearLayer quakes st3 else st3)"

text \<open>
  Lines 115 to 119, the body of the \<^verbatim>\<open>try\<close>: each load is awaited, and an exception
  leaves the body at once.
\<close>

definition loading :: "platform \<Rightarrow> app \<Rightarrow> js_error option \<times> app" where
  "loading P st =
     (case (if layerMcd st then loadBrand P ''mcdonalds'' mcd st else (None, st)) of
        (Some e, st1) \<Rightarrow> (Some e, st1)
      | (None, st1) \<Rightarrow>
     (case (if layerStar st1 then loadBrand P ''starbucks'' starbucks st1 else (None, st1)) of
        (Some e, st2) \<Rightarrow> (Some e, st2)
      | (None, st2) \<Rightarrow>
     (case (if layerDG st2 then loadBrand P ''dollargeneral'' dg st2 else (None, st2)) of
        (Some e, st3) \<Rightarrow> (Some e, st3)
      | (None, st3) \<Rightarrow>
     (case (if layerQuakes st3 then loadQuakes P st3 else (None, st3)) of
        (Some e, st4) \<Rightarrow> (Some e, st4)
      | (None, st4) \<Rightarrow> (None, setStatus ''Done.'' st4)))))"

text \<open>
  \<^verbatim>\<open>refresh\<close>: the clearing, the body of the \<^verbatim>\<open>try\<close>, and the \<^verbatim>\<open>catch\<close>, which
  writes the exception to the console and its message to the status.
\<close>

definition refresh :: "platform \<Rightarrow> app \<Rightarrow> app" where
  "refresh P st =
     (case loading P (clearing st) of
        (None, st1) \<Rightarrow> st1
      | (Some e, st1) \<Rightarrow> setStatus (''Error: '' @ message e) (st1\<lparr>console := console st1 @ [e]\<rparr>))"

section \<open>The selected datasets, in order\<close>

text \<open>
  The refresh as the specification words it: the datasets whose checkbox is checked, in
  the order brand A, brand B, brand C, seismic, loaded one after the other, each load
  starting from the state the one before it left, and none starting after a failure.
  \<open>loading\<close> above is the code; the theorems compare the two.
\<close>

definition checked :: "app \<Rightarrow> cluster_key \<Rightarrow> bool" where
  "checked st key =
     (case key of
        mcd \<Rightarrow> layerMcd st
      | starbucks \<Rightarrow> layerStar st
      | dg \<Rightarrow> layerDG st
      | quakes \<Rightarrow> layerQuakes st)"

definition selected :: "app \<Rightarrow> cluster_key list" where
  "selected st = filter (checked st) [mcd, starbucks, dg, quakes]"

definition load :: "platform \<Rightarrow> cluster_key \<Rightarrow> app \<Rightarrow> js_error option \<times> app" where
  "load P key =
     (case key of
        mcd \<Rightarrow> loadBrand P ''mcdonalds'' mcd
      | starbucks \<Rightarrow> loadBrand P ''starbucks'' starbucks
      | dg \<Rightarrow> loadBrand P ''dollargeneral'' dg
      | quakes \<Rightarrow> loadQuakes P)"

fun run_loads :: "platform \<Rightarrow> cluster_key list \<Rightarrow> app \<Rightarrow> js_error option \<times> app" where
  "run_loads P [] st = (None, st)"
| "run_loads P (key # keys) st =
     (case load P key st of
        (Some e, st1) \<Rightarrow> (Some e, st1)
      | (None, st1) \<Rightarrow> run_loads P keys st1)"

definition finish :: "js_error option \<times> app \<Rightarrow> js_error option \<times> app" where
  "finish r =
     (case r of
        (Some e, st1) \<Rightarrow> (Some e, st1)
      | (None, st1) \<Rightarrow> (None, setStatus ''Done.'' st1))"

text \<open>The URL a dataset's load requests, in a given state of the inputs and the map.\<close>

definition request :: "platform \<Rightarrow> app \<Rightarrow> cluster_key \<Rightarrow> string" where
  "request P st key =
     (case key of
        mcd \<Rightarrow> API P @ ''/api/osm/brand?brand=mcdonalds&bbox='' @ getBBox P st
      | starbucks \<Rightarrow> API P @ ''/api/osm/brand?brand=starbucks&bbox='' @ getBBox P st
      | dg \<Rightarrow> API P @ ''/api/osm/brand?brand=dollargeneral&bbox='' @ getBBox P st
      | quakes \<Rightarrow>
          API P @ ''/api/usgs/quakes?hours=''
          @ numberToString P (if qHours st = [] then Fin 24 else stringToNumber P (qHours st))
          @ ''&minmag=''
          @ numberToString P (if qMinMag st = [] then Fin 2.5 else stringToNumber P (qMinMag st))
          @ ''&bbox='' @ getBBox P st)"

text \<open>What a load reads and never writes, and the layer of one key.\<close>

definition inputs :: "app \<Rightarrow> (bool \<times> bool \<times> bool \<times> bool) \<times> string \<times> string \<times> (jsnum \<times> jsnum \<times> jsnum \<times> jsnum)" where
  "inputs st = ((layerMcd st, layerStar st, layerDG st, layerQuakes st), qHours st, qMinMag st, mapBounds st)"

definition layer :: "cluster_key \<Rightarrow> app \<Rightarrow> marker list \<times> bool" where
  "layer key st = (clusters st key, mapLayers st key)"

text \<open>The name of a thrown value (\<^verbatim>\<open>e.name\<close>).\<close>

fun error_name :: "js_error \<Rightarrow> string" where
  "error_name (Error m) = ''Error''"
| "error_name (TypeError m) = ''TypeError''"
| "error_name (SyntaxError m) = ''SyntaxError''"
| "error_name (OtherError n m) = n"

section \<open>A platform and a page for the examples\<close>

text \<open>
  The examples run on a platform whose number conversions are decimal: a number prints
  exactly when it is whole or has one decimal digit; digits with at most one decimal
  point read as that number, the empty string as 0, and text with any other character
  as NaN (the examples use no sign, exponent, hexadecimal or blank). The time 0 prints
  as the first second of 1970, every other time as one fixed text. The network is a
  parameter.
\<close>

fun show_nat :: "nat \<Rightarrow> string" where
  "show_nat n =
     (if n < 10 then [''0123456789'' ! n]
      else show_nat (n div 10) @ [''0123456789'' ! (n mod 10)])"

declare show_nat.simps [simp del]

definition demoNumberToString :: "jsnum \<Rightarrow> string" where
  "demoNumberToString n =
     (case n of
        NaN \<Rightarrow> ''NaN''
      | PosInf \<Rightarrow> ''Infinity''
      | NegInf \<Rightarrow> ''-Infinity''
      | Fin r \<Rightarrow>
          (if r < 0 then ''-'' else []) @ show_nat (nat \<lfloor>\<bar>r\<bar>\<rfloor>)
          @ (if \<bar>r\<bar> = of_int \<lfloor>\<bar>r\<bar>\<rfloor> then []
             else ''.'' @ show_nat (nat \<lfloor>(\<bar>r\<bar> - of_int \<lfloor>\<bar>r\<bar>\<rfloor>) * 10\<rfloor>)))"

definition demoToFixed5 :: "jsnum \<Rightarrow> string" where
  "demoToFixed5 n =
     (case n of
        Fin r \<Rightarrow> (if r < 0 then ''-'' else []) @ show_nat (nat \<lfloor>\<bar>r\<bar>\<rfloor>) @ ''.00000''
      | _ \<Rightarrow> demoNumberToString n)"

fun read_nat :: "nat \<Rightarrow> string \<Rightarrow> nat option" where
  "read_nat acc [] = Some acc"
| "read_nat acc (c # cs) =
     (case map_of (zip ''0123456789'' [0, 1, 2, 3, 4, 5, 6, 7, 8, 9]) c of
        None \<Rightarrow> None
      | Some d \<Rightarrow> read_nat (acc * 10 + d) cs)"

definition demoStringToNumber :: "string \<Rightarrow> jsnum" where
  "demoStringToNumber s =
     (if s = [] then Fin 0
      else if filter (\<lambda>c. c \<noteq> CHR ''.'') s = [] then NaN
      else (case read_nat 0 (takeWhile (\<lambda>c. c \<noteq> CHR ''.'') s) of
              None \<Rightarrow> NaN
            | Some n \<Rightarrow>
                (case dropWhile (\<lambda>c. c \<noteq> CHR ''.'') s of
                   [] \<Rightarrow> Fin (real n)
                 | dot # ds \<Rightarrow>
                     (case read_nat 0 ds of
                        None \<Rightarrow> NaN
                      | Some m \<Rightarrow> Fin (real n + real m / 10 ^ length ds)))))"

definition demoPlatform :: "(string \<Rightarrow> js_error + response) \<Rightarrow> platform" where
  "demoPlatform net =
     \<lparr>location_protocol = ''http:'',
      location_hostname = ''localhost'',
      numberToString = demoNumberToString,
      toFixed5 = demoToFixed5,
      stringToNumber = demoStringToNumber,
      dateToLocaleString =
        (\<lambda>v. if v = VNum (Fin 0) then Inr ''1/1/1970, 12:00:00 AM'' else Inr ''1/1/2024, 12:00:00 AM''),
      fetch = net\<rparr>"

text \<open>The page as it is when the script has run: nothing loaded, nothing on the map.\<close>

definition demoApp :: app where
  "demoApp =
     \<lparr>statusEl = ''Ready. Zoom in, select layers, hit Refresh.'',
      layerMcd = False, layerStar = False, layerDG = False, layerQuakes = False,
      qHours = ''24'', qMinMag = ''2.5'',
      clusters = (\<lambda>key. []),
      mapLayers = (\<lambda>key. False),
      mapBounds = (Fin 30, Fin (- 100), Fin 40, Fin (- 90)),
      console = [],
      fetched = []\<rparr>"

text \<open>GeoJSON features: a point with a name, and earthquakes.\<close>

definition feature :: "jsval \<Rightarrow> jsval \<Rightarrow> jsval" where
  "feature geometry properties =
     VObj [(''type'', VStr ''Feature''), (''properties'', properties), (''geometry'', geometry)]"

definition point :: "real \<Rightarrow> real \<Rightarrow> jsval" where
  "point x y =
     VObj [(''type'', VStr ''Point''), (''coordinates'', VArr [VNum (Fin x), VNum (Fin y)])]"

definition collection :: "jsval list \<Rightarrow> jsval" where
  "collection fs = VObj [(''type'', VStr ''FeatureCollection''), (''features'', VArr fs)]"

definition okResponse :: "jsval \<Rightarrow> response" where
  "okResponse body = \<lparr>ok = True, status = 200, statusText = ''OK'', json = Inr body\<rparr>"

text \<open>
  A network on which the first brand has one store, the second brand's query is answered
  with a 500, and there are no earthquakes. Anything else is not reachable.
\<close>

definition demoNet :: "string \<Rightarrow> js_error + response" where
  "demoNet url =
     (if url = ''http://localhost:8088/api/osm/brand?brand=mcdonalds&bbox=30.00000,-100.00000,40.00000,-90.00000''
      then Inr (okResponse (collection
             [feature (point (- 98) 35) (VObj [(''name'', VStr ''Store 1''), (''id'', VStr ''node/1'')])]))
      else if url = ''http://localhost:8088/api/osm/brand?brand=starbucks&bbox=30.00000,-100.00000,40.00000,-90.00000''
      then Inr \<lparr>ok = False, status = 500, statusText = ''Internal Server Error'', json = Inl (SyntaxError ''Unexpected token'')\<rparr>
      else if url = ''http://localhost:8088/api/usgs/quakes?hours=24&minmag=2.5&bbox=30.00000,-100.00000,40.00000,-90.00000''
      then Inr (okResponse (collection []))
      else Inl (TypeError ''Failed to fetch''))"

text \<open>The page with one marker of the first brand on the map.\<close>

definition loadedApp :: app where
  "loadedApp =
     demoApp\<lparr>clusters := (clusters demoApp)
                 (mcd := [\<lparr>lat = VNum (Fin 35), lon = VNum (Fin (- 98)), shape = Pin, popup = None\<rparr>]),
              mapLayers := (mapLayers demoApp)(mcd := True)\<rparr>"

text \<open>Pages with the checkboxes set: three datasets selected, and two.\<close>

definition demoThree :: app where
  "demoThree = demoApp\<lparr>layerMcd := True, layerStar := True, layerQuakes := True\<rparr>"

definition demoTwo :: app where
  "demoTwo = demoApp\<lparr>layerMcd := True, layerQuakes := True\<rparr>"

text \<open>
  A network that is down, one that answers every request with a page of HTML, and one on
  which the connection is lost after the headers of the response.
\<close>

definition offlineNet :: "string \<Rightarrow> js_error + response" where
  "offlineNet url = Inl (TypeError ''Failed to fetch'')"

definition htmlNet :: "string \<Rightarrow> js_error + response" where
  "htmlNet url =
     Inr \<lparr>ok = True, status = 200, statusText = ''OK'', json = Inl (SyntaxError ''Unexpected token <'')\<rparr>"

definition droppedNet :: "string \<Rightarrow> js_error + response" where
  "droppedNet url =
     Inr \<lparr>ok = True, status = 200, statusText = ''OK'', json = Inl (TypeError ''network error'')\<rparr>"


text \<open>
  An earthquake of magnitude 5 whose geometry has the type \<open>t\<close> and a pair of numbers for
  coordinates, the same without a type, and a network that reports the first as the only
  earthquake.
\<close>

definition typedQuake :: "jsval \<Rightarrow> real \<Rightarrow> real \<Rightarrow> jsval" where
  "typedQuake t x y =
     feature (VObj [(''type'', t), (''coordinates'', VArr [VNum (Fin x), VNum (Fin y)])])
       (VObj [(''mag'', VNum (Fin 5)), (''place'', VStr ''Utah'')])"

definition untypedQuake :: "real \<Rightarrow> real \<Rightarrow> jsval" where
  "untypedQuake x y =
     feature (VObj [(''coordinates'', VArr [VNum (Fin x), VNum (Fin y)])])
       (VObj [(''mag'', VNum (Fin 5)), (''place'', VStr ''Utah'')])"

definition multiPointNet :: "string \<Rightarrow> js_error + response" where
  "multiPointNet url =
     Inr (okResponse (collection [typedQuake (VStr ''MultiPoint'') (- 100) 40]))"

text \<open>
  An earthquake with no magnitude, a null place and no time, and a store whose name is the
  empty string and whose id is 0.
\<close>

definition bareQuake :: jsval where
  "bareQuake = feature (point (- 100) 40) (VObj [(''place'', VNull)])"

definition namelessStore :: jsval where
  "namelessStore = feature (point (- 98) 35) (VObj [(''name'', VStr []), (''id'', VNum (Fin 0))])"

section \<open>Evaluating the examples\<close>

lemmas demo_defs =
  demoPlatform_def demoNet_def demoApp_def okResponse_def collection_def
  feature_def point_def
  demoNumberToString_def demoToFixed5_def demoStringToNumber_def show_nat.simps

lemmas code_defs =
  load_def loadBrand_def loadQuakes_def fetchJSON_def addGeoJSONPointsToCluster_def featureList_def
  geoJSONPoint_def quakePoint_def brandPopup_def brandName_def brandId_def countText_def
  quakesUrl_def quakeHours_def quakeMinMag_def quakeMag_def quakePlace_def quakeTime_def
  quakeRadius_def quakePopup_def get_def opt_get_def js_or_def js_coalesce_def destructure2_def
  elem_def ToNumber_def Math_min_def Math_max_def API_def getBBox_def setStatus_def
  clearLayer_def ensureLayer_def addLayer_def clearing_def Let_def

section \<open>The layer registry\<close>

text \<open>
  C8. Clearing a layer twice in a row leaves the state that clearing it once leaves: after
  one call the group is empty and off the map, and on a group that is already empty and
  off the map the call changes nothing.
\<close>

theorem clearLayer_idempotent:
  "clearLayer key (clearLayer key st) = clearLayer key st
   \<and> clusters (clearLayer key st) key = []
   \<and> \<not> mapLayers (clearLayer key st) key
   \<and> (clusters st key = [] \<and> \<not> mapLayers st key \<longrightarrow> clearLayer key st = st)"
  by (simp add: clearLayer_def Let_def fun_upd_idem)

theorem clearLayer_idempotent_witness:
  "clusters loadedApp mcd \<noteq> [] \<and> mapLayers loadedApp mcd
   \<and> clearLayer mcd (clearLayer mcd loadedApp) = clearLayer mcd loadedApp
   \<and> clusters demoApp mcd = [] \<and> \<not> mapLayers demoApp mcd \<and> clearLayer mcd demoApp = demoApp"
  using clearLayer_idempotent [of mcd loadedApp] clearLayer_idempotent [of mcd demoApp]
  by (simp add: loadedApp_def demoApp_def)

section \<open>Refresh: helper lemmas\<close>

subsection \<open>What the operations leave alone\<close>

lemma forEach_preserves:
  assumes "\<And>x s r s1. f x s = (r, s1) \<Longrightarrow> R s1 = R s"
  shows "forEach f xs st = (res, st1) \<Longrightarrow> R st1 = R st"
proof (induction xs arbitrary: st)
  case Nil
  then show ?case by simp
next
  case (Cons x xs)
  obtain r s1 where fx: "f x st = (r, s1)" by (cases "f x st")
  have s1: "R s1 = R st" using assms [OF fx] .
  show ?case
  proof (cases r)
    case None
    then have "forEach f xs s1 = (res, st1)" using Cons.prems fx by simp
    then show ?thesis using Cons.IH s1 by simp
  next
    case (Some e)
    then have "st1 = s1" using Cons.prems fx by simp
    then show ?thesis using s1 by simp
  qed
qed

lemma inputs_clearLayer: "inputs (clearLayer key st) = inputs st"
  by (simp add: inputs_def clearLayer_def Let_def)

lemma inputs_clearing: "inputs (clearing st) = inputs st"
  by (simp add: clearing_def Let_def inputs_clearLayer)

lemma inputs_fetchJSON: "fetchJSON P url st = (r, st1) \<Longrightarrow> inputs st1 = inputs st"
  by (auto simp: inputs_def fetchJSON_def Let_def split: sum.splits if_splits)

lemma inputs_geoJSONPoint: "geoJSONPoint key pf f st = (r, st1) \<Longrightarrow> inputs st1 = inputs st"
  by (auto simp: geoJSONPoint_def Let_def inputs_def addLayer_def
      split: sum.splits prod.splits option.splits if_splits)

lemma inputs_quakePoint: "quakePoint P f st = (r, st1) \<Longrightarrow> inputs st1 = inputs st"
  by (auto simp: quakePoint_def Let_def inputs_def addLayer_def
      split: sum.splits prod.splits option.splits if_splits)

lemma inputs_forEach_geoJSONPoint:
  "forEach (geoJSONPoint key pf) xs st = (r, st1) \<Longrightarrow> inputs st1 = inputs st"
  by (rule forEach_preserves [where f = "geoJSONPoint key pf"]) (rule inputs_geoJSONPoint)

lemma inputs_forEach_quakePoint:
  "forEach (quakePoint P) xs st = (r, st1) \<Longrightarrow> inputs st1 = inputs st"
  by (rule forEach_preserves [where f = "quakePoint P"]) (rule inputs_quakePoint)

lemma inputs_setStatus: "inputs (setStatus msg st) = inputs st"
  by (simp add: inputs_def setStatus_def)

lemma inputs_ensureLayer: "inputs (ensureLayer key st) = inputs st"
  by (simp add: inputs_def ensureLayer_def)

lemma inputs_addGeoJSON:
  "addGeoJSONPointsToCluster gj key pf st = (r, st1) \<Longrightarrow> inputs st1 = inputs st"
  by (auto simp: addGeoJSONPointsToCluster_def split: sum.splits
      dest: inputs_forEach_geoJSONPoint)

lemma inputs_loadBrand: "loadBrand P brand key st = (r, st1) \<Longrightarrow> inputs st1 = inputs st"
  by (auto simp: loadBrand_def Let_def inputs_setStatus inputs_ensureLayer
      split: sum.splits prod.splits option.splits
      dest!: inputs_fetchJSON inputs_addGeoJSON)

lemma inputs_loadQuakes: "loadQuakes P st = (r, st1) \<Longrightarrow> inputs st1 = inputs st"
  by (auto simp: loadQuakes_def Let_def inputs_setStatus inputs_ensureLayer
      split: sum.splits prod.splits option.splits
      dest!: inputs_fetchJSON inputs_forEach_quakePoint)

lemma inputs_load: "load P key st = (r, st1) \<Longrightarrow> inputs st1 = inputs st"
  by (cases key) (auto simp: load_def dest: inputs_loadBrand inputs_loadQuakes)

lemma checked_inputs: "inputs st1 = inputs st \<Longrightarrow> checked st1 = checked st"
  by (rule ext) (simp add: inputs_def checked_def split: cluster_key.splits)

lemma request_inputs: "inputs st1 = inputs st \<Longrightarrow> request P st1 = request P st"
  by (rule ext) (simp add: inputs_def request_def getBBox_def split: cluster_key.splits)

lemma inputs_run_loads: "run_loads P keys st = (r, st1) \<Longrightarrow> inputs st1 = inputs st"
proof (induction keys arbitrary: st)
  case Nil
  then show ?case by simp
next
  case (Cons key keys)
  obtain r0 s0 where l: "load P key st = (r0, s0)" by (cases "load P key st")
  have i: "inputs s0 = inputs st" using inputs_load [OF l] .
  show ?case
  proof (cases r0)
    case None
    then have "run_loads P keys s0 = (r, st1)" using Cons.prems l by simp
    then show ?thesis using Cons.IH i by simp
  next
    case (Some e)
    then show ?thesis using Cons.prems l i by simp
  qed
qed

subsection \<open>The code loads the selected datasets in order\<close>

lemma run_loads_filter:
  "finish (run_loads P (filter (checked st) (key # keys)) st) =
     (case (if checked st key then load P key st else (None, st)) of
        (Some e, st1) \<Rightarrow> (Some e, st1)
      | (None, st1) \<Rightarrow> finish (run_loads P (filter (checked st1) keys) st1))"
proof (cases "checked st key")
  case False
  then show ?thesis by simp
next
  case True
  obtain r st1 where l: "load P key st = (r, st1)" by (cases "load P key st")
  have "checked st1 = checked st"
    using inputs_load [OF l] by (rule checked_inputs)
  then show ?thesis using True l by (cases r) (simp_all add: finish_def)
qed

lemma loading_run_loads: "loading P st = finish (run_loads P (selected st) st)"
  unfolding selected_def run_loads_filter
  unfolding filter.simps run_loads.simps finish_def prod.case option.case
  unfolding loading_def checked_def load_def cluster_key.case
  by (rule refl)

lemma selected_clearing: "selected (clearing st) = selected st"
  by (simp add: selected_def checked_inputs [OF inputs_clearing])

lemma refresh_run_loads:
  "refresh P st =
     (case run_loads P (selected st) (clearing st) of
        (None, st1) \<Rightarrow> setStatus ''Done.'' st1
      | (Some e, st1) \<Rightarrow> setStatus (''Error: '' @ message e) (st1\<lparr>console := console st1 @ [e]\<rparr>))"
  by (simp add: refresh_def loading_run_loads selected_clearing finish_def
      split: prod.splits option.splits)

subsection \<open>The requests\<close>

lemma fetched_fetchJSON: "fetchJSON P url st = (r, st1) \<Longrightarrow> fetched st1 = fetched st @ [url]"
  by (auto simp: fetchJSON_def Let_def split: sum.splits if_splits)

lemma fetched_geoJSONPoint: "geoJSONPoint key pf f st = (r, st1) \<Longrightarrow> fetched st1 = fetched st"
  by (auto simp: geoJSONPoint_def Let_def addLayer_def
      split: sum.splits prod.splits option.splits if_splits)

lemma fetched_quakePoint: "quakePoint P f st = (r, st1) \<Longrightarrow> fetched st1 = fetched st"
  by (auto simp: quakePoint_def Let_def addLayer_def
      split: sum.splits prod.splits option.splits if_splits)

lemma fetched_forEach_geoJSONPoint:
  "forEach (geoJSONPoint key pf) xs st = (r, st1) \<Longrightarrow> fetched st1 = fetched st"
  by (rule forEach_preserves [where f = "geoJSONPoint key pf"]) (rule fetched_geoJSONPoint)

lemma fetched_forEach_quakePoint:
  "forEach (quakePoint P) xs st = (r, st1) \<Longrightarrow> fetched st1 = fetched st"
  by (rule forEach_preserves [where f = "quakePoint P"]) (rule fetched_quakePoint)

lemma fetched_loadBrand:
  "loadBrand P brand key st = (r, st1) \<Longrightarrow>
   fetched st1 = fetched st @ [API P @ ''/api/osm/brand?brand='' @ brand @ ''&bbox='' @ getBBox P st]"
  by (auto simp: loadBrand_def Let_def setStatus_def ensureLayer_def addGeoJSONPointsToCluster_def
      split: sum.splits prod.splits option.splits if_splits
      dest!: fetched_fetchJSON fetched_forEach_geoJSONPoint)

lemma ToNumber_input:
  "ToNumber P (js_or (VStr s) (VNum d)) = Inr (if s = [] then d else stringToNumber P s)"
  by (simp add: ToNumber_def js_or_def)

lemma quakeHours_input:
  "quakeHours P st = Inr (if qHours st = [] then Fin 24 else stringToNumber P (qHours st))"
  by (simp add: quakeHours_def ToNumber_input)

lemma quakeMinMag_input:
  "quakeMinMag P st = Inr (if qMinMag st = [] then Fin 2.5 else stringToNumber P (qMinMag st))"
  by (simp add: quakeMinMag_def ToNumber_input)

lemma fetched_loadQuakes:
  "loadQuakes P st = (r, st1) \<Longrightarrow> fetched st1 = fetched st @ [request P st quakes]"
  by (auto simp: loadQuakes_def quakeHours_input quakeMinMag_input quakesUrl_def request_def
        Let_def setStatus_def ensureLayer_def
      split: sum.splits prod.splits option.splits if_splits
      dest!: fetched_fetchJSON fetched_forEach_quakePoint)

lemma fetched_load: "load P key st = (r, st1) \<Longrightarrow> fetched st1 = fetched st @ [request P st key]"
  by (cases key) (auto simp: load_def request_def dest: fetched_loadBrand fetched_loadQuakes)

subsection \<open>The layers of the other keys\<close>

lemma layer_fetchJSON: "fetchJSON P url st = (r, st1) \<Longrightarrow> layer k st1 = layer k st"
  by (auto simp: layer_def fetchJSON_def Let_def split: sum.splits if_splits)

lemma layer_geoJSONPoint:
  "geoJSONPoint key pf f st = (r, st1) \<Longrightarrow> k \<noteq> key \<Longrightarrow> layer k st1 = layer k st"
  by (auto simp: geoJSONPoint_def Let_def addLayer_def layer_def
      split: sum.splits prod.splits option.splits if_splits)

lemma layer_quakePoint:
  "quakePoint P f st = (r, st1) \<Longrightarrow> k \<noteq> quakes \<Longrightarrow> layer k st1 = layer k st"
  by (auto simp: quakePoint_def Let_def addLayer_def layer_def
      split: sum.splits prod.splits option.splits if_splits)

lemma layer_forEach_geoJSONPoint:
  "forEach (geoJSONPoint key pf) xs st = (r, st1) \<Longrightarrow> k \<noteq> key \<Longrightarrow> layer k st1 = layer k st"
  by (rule forEach_preserves [where f = "geoJSONPoint key pf" and R = "layer k"])
     (rule layer_geoJSONPoint)

lemma layer_forEach_quakePoint:
  "forEach (quakePoint P) xs st = (r, st1) \<Longrightarrow> k \<noteq> quakes \<Longrightarrow> layer k st1 = layer k st"
  by (rule forEach_preserves [where f = "quakePoint P" and R = "layer k"])
     (rule layer_quakePoint)

lemma layer_loadBrand:
  "loadBrand P brand key st = (r, st1) \<Longrightarrow> k \<noteq> key \<Longrightarrow> layer k st1 = layer k st"
  by (auto simp: loadBrand_def Let_def addGeoJSONPointsToCluster_def
      split: sum.splits prod.splits option.splits if_splits
      dest!: layer_fetchJSON layer_forEach_geoJSONPoint [where k = k])
     (auto simp: layer_def setStatus_def ensureLayer_def)

lemma layer_loadQuakes:
  "loadQuakes P st = (r, st1) \<Longrightarrow> k \<noteq> quakes \<Longrightarrow> layer k st1 = layer k st"
  by (auto simp: loadQuakes_def Let_def
      split: sum.splits prod.splits option.splits if_splits
      dest!: layer_fetchJSON layer_forEach_quakePoint [where k = k])
     (auto simp: layer_def setStatus_def ensureLayer_def)

lemma layer_load: "load P key st = (r, st1) \<Longrightarrow> k \<noteq> key \<Longrightarrow> layer k st1 = layer k st"
  by (cases key) (auto simp: load_def dest: layer_loadBrand layer_loadQuakes)

lemma layer_run_loads:
  "run_loads P keys st = (r, st1) \<Longrightarrow> k \<notin> set keys \<Longrightarrow> layer k st1 = layer k st"
proof (induction keys arbitrary: st)
  case Nil
  then show ?case by simp
next
  case (Cons key keys)
  obtain r0 s0 where l: "load P key st = (r0, s0)" by (cases "load P key st")
  have i: "layer k s0 = layer k st" using layer_load [OF l] Cons.prems(2) by simp
  show ?case
  proof (cases r0)
    case None
    then have "run_loads P keys s0 = (r, st1)" using Cons.prems l by simp
    then show ?thesis using Cons.IH Cons.prems(2) i by simp
  next
    case (Some e)
    then show ?thesis using Cons.prems l i by simp
  qed
qed

lemma clearing_eq:
  "clearing st =
     st\<lparr>clusters := (\<lambda>k. if checked st k then clusters st k else []),
        mapLayers := (\<lambda>k. if checked st k then mapLayers st k else False)\<rparr>"
proof (rule app.equality)
  show "clusters (clearing st) =
        clusters (st\<lparr>clusters := (\<lambda>k. if checked st k then clusters st k else []),
                     mapLayers := (\<lambda>k. if checked st k then mapLayers st k else False)\<rparr>)"
    by (rule ext, case_tac x) (simp_all add: clearing_def clearLayer_def Let_def checked_def)
  show "mapLayers (clearing st) =
        mapLayers (st\<lparr>clusters := (\<lambda>k. if checked st k then clusters st k else []),
                      mapLayers := (\<lambda>k. if checked st k then mapLayers st k else False)\<rparr>)"
    by (rule ext, case_tac x) (simp_all add: clearing_def clearLayer_def Let_def checked_def)
qed (simp_all add: clearing_def clearLayer_def Let_def)

lemma layer_clearing: "checked st k \<Longrightarrow> layer k (clearing st) = layer k st"
  by (simp add: clearing_eq layer_def)

lemma fetched_clearing: "fetched (clearing st) = fetched st"
  by (simp add: clearing_eq)

subsection \<open>Runs\<close>

lemma run_loads_append:
  "run_loads P pre st = (None, st1) \<Longrightarrow> run_loads P (pre @ keys) st = run_loads P keys st1"
proof (induction pre arbitrary: st)
  case Nil
  then show ?case by simp
next
  case (Cons key pre)
  obtain r0 s0 where l: "load P key st = (r0, s0)" by (cases "load P key st")
  show ?case
  proof (cases r0)
    case None
    then have "run_loads P pre s0 = (None, st1)" using Cons.prems l by simp
    then show ?thesis using Cons.IH l None by simp
  next
    case (Some e)
    then show ?thesis using Cons.prems l by simp
  qed
qed

lemma fetched_run_loads:
  "run_loads P keys st = (None, st1) \<Longrightarrow> fetched st1 = fetched st @ map (request P st) keys"
proof (induction keys arbitrary: st)
  case Nil
  then show ?case by simp
next
  case (Cons key keys)
  obtain r0 s0 where l: "load P key st = (r0, s0)" by (cases "load P key st")
  show ?case
  proof (cases r0)
    case None
    then have run: "run_loads P keys s0 = (None, st1)" using Cons.prems l by simp
    have "request P s0 = request P st" using inputs_load [OF l] by (rule request_inputs)
    then show ?thesis using Cons.IH [OF run] fetched_load [OF l] by simp
  next
    case (Some e)
    then show ?thesis using Cons.prems l by simp
  qed
qed

lemma distinct_selected: "distinct (selected st)"
  by (simp add: selected_def)

lemma set_selected: "k \<in> set (selected st) \<Longrightarrow> checked st k"
  unfolding selected_def set_filter by simp

lemma layer_catch: "layer k (setStatus msg (st\<lparr>console := c\<rparr>)) = layer k st"
  by (simp add: layer_def setStatus_def)

section \<open>Refresh: the clearing, the order of the loads, the failure\<close>

text \<open>
  C4. At the start of a refresh exactly the layers whose checkbox is not checked are
  cleared: their group is emptied and taken off the map. The layers whose checkbox is
  checked keep their markers and their place on the map, and nothing else of the state
  changes; the loads start from that state.
\<close>

theorem clearing_clears_unselected:
  "clearing st =
     st\<lparr>clusters := (\<lambda>k. if checked st k then clusters st k else []),
        mapLayers := (\<lambda>k. if checked st k then mapLayers st k else False)\<rparr>
   \<and> refresh P st =
     (case loading P (clearing st) of
        (None, st1) \<Rightarrow> st1
      | (Some e, st1) \<Rightarrow> setStatus (''Error: '' @ message e) (st1\<lparr>console := console st1 @ [e]\<rparr>))"
  using clearing_eq [of st] by (simp add: refresh_def)

text \<open>
  C5. Whatever the checkboxes, a refresh loads the checked datasets in the order brand A
  (mcd), brand B (starbucks), brand C (dg), seismic (quakes), one after the other: each
  load starts from the state its predecessor left and only when that one returned without
  an exception. When all succeed the requests made are those of the checked datasets, in
  that order.
\<close>

theorem refresh_sequential:
  "refresh P st =
     (case run_loads P (filter (checked st) [mcd, starbucks, dg, quakes]) (clearing st) of
        (None, st1) \<Rightarrow> setStatus ''Done.'' st1
      | (Some e, st1) \<Rightarrow> setStatus (''Error: '' @ message e) (st1\<lparr>console := console st1 @ [e]\<rparr>))
   \<and> (fst (run_loads P (filter (checked st) [mcd, starbucks, dg, quakes]) (clearing st)) = None \<longrightarrow>
        fetched (refresh P st) =
        fetched st @ map (request P st) (filter (checked st) [mcd, starbucks, dg, quakes]))"
proof -
  have "fetched (refresh P st) = fetched st @ map (request P st) (selected st)"
    if ok: "fst (run_loads P (selected st) (clearing st)) = None"
  proof -
    obtain st1 where run: "run_loads P (selected st) (clearing st) = (None, st1)"
      using ok by (cases "run_loads P (selected st) (clearing st)") auto
    have "fetched st1 = fetched (clearing st) @ map (request P (clearing st)) (selected st)"
      using fetched_run_loads [OF run] .
    then have "fetched st1 = fetched st @ map (request P st) (selected st)"
      by (simp add: fetched_clearing request_inputs [OF inputs_clearing])
    then show ?thesis using run by (simp add: refresh_run_loads setStatus_def)
  qed
  then show ?thesis
    unfolding selected_def [symmetric] using refresh_run_loads [of P st] by blast
qed

theorem refresh_sequential_witness:
  "fst (run_loads (demoPlatform demoNet) (selected demoTwo) (clearing demoTwo)) = None
   \<and> selected demoTwo = [mcd, quakes]
   \<and> fetched (refresh (demoPlatform demoNet) demoTwo) =
       [''http://localhost:8088/api/osm/brand?brand=mcdonalds&bbox=30.00000,-100.00000,40.00000,-90.00000'',
        ''http://localhost:8088/api/usgs/quakes?hours=24&minmag=2.5&bbox=30.00000,-100.00000,40.00000,-90.00000'']"
proof -
  let ?P = "demoPlatform demoNet"
  have sel: "selected demoTwo = [mcd, quakes]"
    by (simp add: selected_def checked_def demoTwo_def demoApp_def)
  have run: "fst (run_loads ?P (selected demoTwo) (clearing demoTwo)) = None"
    unfolding sel by (simp add: demoTwo_def demo_defs code_defs)
  have req: "map (request ?P demoTwo) [mcd, quakes] =
       [''http://localhost:8088/api/osm/brand?brand=mcdonalds&bbox=30.00000,-100.00000,40.00000,-90.00000'',
        ''http://localhost:8088/api/usgs/quakes?hours=24&minmag=2.5&bbox=30.00000,-100.00000,40.00000,-90.00000'']"
    by (simp add: request_def demoTwo_def demo_defs API_def getBBox_def)
  have f0: "fetched demoTwo = []"
    by (simp add: demoTwo_def demoApp_def)
  have "fetched (refresh ?P demoTwo) = fetched demoTwo @ map (request ?P demoTwo) (selected demoTwo)"
    unfolding selected_def
    by (rule refresh_sequential [of ?P demoTwo, THEN conjunct2, THEN mp])
       (rule run [unfolded selected_def])
  then show ?thesis using run sel req f0 by simp
qed

text \<open>
  C3. When the load of a dataset fails, after the loads before it have succeeded, the
  refresh ends in the state that load left, with the exception on the console and the
  status \<^verbatim>\<open>Error: \<close> followed by its message: no further request is made, the layers
  loaded before are as their loads left them, and the layers of the datasets after it are
  as they were before the refresh. The result is a state: the exception does not leave
  \<open>refresh\<close>.
\<close>

theorem refresh_failure:
  assumes sel: "selected st = pre @ key # post"
    and pre: "run_loads P pre (clearing st) = (None, st1)"
    and fail: "load P key st1 = (Some e, st2)"
  shows "refresh P st = setStatus (''Error: '' @ message e) (st2\<lparr>console := console st2 @ [e]\<rparr>)
     \<and> statusEl (refresh P st) = ''Error: '' @ message e
     \<and> fetched (refresh P st) = fetched st @ map (request P st) (pre @ [key])
     \<and> (\<forall>k \<in> set pre. layer k (refresh P st) = layer k st1)
     \<and> (\<forall>k \<in> set post. layer k (refresh P st) = layer k st)"
proof -
  let ?end = "setStatus (''Error: '' @ message e) (st2\<lparr>console := console st2 @ [e]\<rparr>)"
  have run: "run_loads P (selected st) (clearing st) = (Some e, st2)"
    using run_loads_append [OF pre, of "key # post"] fail by (simp add: sel)
  have r: "refresh P st = ?end"
    using run by (simp add: refresh_run_loads)
  have d: "distinct (pre @ key # post)"
    using distinct_selected [of st] by (simp add: sel)
  have i1: "inputs st1 = inputs st"
    using inputs_run_loads [OF pre] by (simp add: inputs_clearing)
  have f1: "fetched st1 = fetched st @ map (request P st) pre"
    using fetched_run_loads [OF pre]
    by (simp add: fetched_clearing request_inputs [OF inputs_clearing])
  have f2: "fetched st2 = fetched st @ map (request P st) (pre @ [key])"
    using fetched_load [OF fail] f1 by (simp add: request_inputs [OF i1])
  have p1: "layer k (refresh P st) = layer k st1" if "k \<in> set pre" for k
  proof -
    have "k \<noteq> key" using d that by auto
    then show ?thesis using layer_load [OF fail] by (simp add: r layer_catch)
  qed
  have p2: "layer k (refresh P st) = layer k st" if "k \<in> set post" for k
  proof -
    have "k \<noteq> key" and "k \<notin> set pre" using d that by auto
    moreover have "checked st k"
      using that set_selected [of k st] by (simp add: sel)
    ultimately show ?thesis
      using layer_load [OF fail, of k] layer_run_loads [OF pre, of k] layer_clearing [of st k]
      by (simp add: r layer_catch)
  qed
  show ?thesis using r f2 p1 p2 by (simp add: setStatus_def)
qed

theorem refresh_failure_witness:
  "selected demoThree = [mcd] @ starbucks # [quakes]
   \<and> fst (run_loads (demoPlatform demoNet) [mcd] (clearing demoThree)) = None
   \<and> fst (load (demoPlatform demoNet) starbucks
           (snd (run_loads (demoPlatform demoNet) [mcd] (clearing demoThree)))) =
       Some (Error ''500 Internal Server Error'')
   \<and> statusEl (refresh (demoPlatform demoNet) demoThree) = ''Error: 500 Internal Server Error''
   \<and> fetched (refresh (demoPlatform demoNet) demoThree) =
       [''http://localhost:8088/api/osm/brand?brand=mcdonalds&bbox=30.00000,-100.00000,40.00000,-90.00000'',
        ''http://localhost:8088/api/osm/brand?brand=starbucks&bbox=30.00000,-100.00000,40.00000,-90.00000'']
   \<and> layer mcd (refresh (demoPlatform demoNet) demoThree) =
       ([\<lparr>lat = VNum (Fin 35), lon = VNum (Fin (- 98)), shape = Pin,
          popup = Some ''<b>Store 1</b><br><small>node/1</small>''\<rparr>], True)
   \<and> layer quakes (refresh (demoPlatform demoNet) demoThree) = ([], False)"
proof -
  let ?P = "demoPlatform demoNet"
  let ?s1 = "snd (run_loads ?P [mcd] (clearing demoThree))"
  let ?e = "Error ''500 Internal Server Error''"
  let ?s2 = "snd (load ?P starbucks ?s1)"
  have sel: "selected demoThree = [mcd] @ starbucks # [quakes]"
    by (simp add: selected_def checked_def demoThree_def demoApp_def)
  have a: "fst (run_loads ?P [mcd] (clearing demoThree)) = None"
    by (simp add: demoThree_def demo_defs code_defs)
  have b: "fst (load ?P starbucks ?s1) = Some ?e"
    by (simp add: demoThree_def demo_defs code_defs)
  have pre: "run_loads ?P [mcd] (clearing demoThree) = (None, ?s1)"
    using a by (simp add: prod_eq_iff)
  have fail: "load ?P starbucks ?s1 = (Some ?e, ?s2)"
    using b by (simp add: prod_eq_iff)
  have l1: "layer mcd ?s1 =
       ([\<lparr>lat = VNum (Fin 35), lon = VNum (Fin (- 98)), shape = Pin,
          popup = Some ''<b>Store 1</b><br><small>node/1</small>''\<rparr>], True)"
    by (simp add: layer_def demoThree_def demo_defs code_defs)
  have l0: "layer quakes demoThree = ([], False)"
    by (simp add: layer_def demoThree_def demoApp_def)
  have req: "map (request ?P demoThree) ([mcd] @ [starbucks]) =
       [''http://localhost:8088/api/osm/brand?brand=mcdonalds&bbox=30.00000,-100.00000,40.00000,-90.00000'',
        ''http://localhost:8088/api/osm/brand?brand=starbucks&bbox=30.00000,-100.00000,40.00000,-90.00000'']"
    by (simp add: request_def demoThree_def demo_defs API_def getBBox_def)
  have f0: "fetched demoThree = []"
    by (simp add: demoThree_def demoApp_def)
  note t = refresh_failure [OF sel pre fail]
  have "statusEl (refresh ?P demoThree) = ''Error: '' @ message ?e" using t by blast
  moreover have "fetched (refresh ?P demoThree) = fetched demoThree @ map (request ?P demoThree) ([mcd] @ [starbucks])"
    using t by blast
  moreover have "layer mcd (refresh ?P demoThree) = layer mcd ?s1"
    by (rule t [THEN conjunct2, THEN conjunct2, THEN conjunct2, THEN conjunct1, THEN bspec]) simp
  moreover have "layer quakes (refresh ?P demoThree) = layer quakes demoThree"
    by (rule t [THEN conjunct2, THEN conjunct2, THEN conjunct2, THEN conjunct2, THEN bspec]) simp
  ultimately show ?thesis using sel a b l1 l0 req f0 by simp
qed

section \<open>From features to markers\<close>

subsection \<open>Features that are skipped\<close>

lemma geoJSONPoint_skips_non_point:
  "\<not> nullish f \<Longrightarrow>
   \<not> truthy (property f ''geometry'') \<or> property (property f ''geometry'') ''type'' \<noteq> VStr ''Point'' \<Longrightarrow>
   geoJSONPoint key popupFn f st = (None, st)"
  by (cases "property f ''geometry''") (auto simp: geoJSONPoint_def get_def)

lemma falsy_coordinates: "\<not> truthy g \<Longrightarrow> opt_get g ''coordinates'' = VUndefined"
  by (cases g) (auto simp: opt_get_def)

lemma quakePoint_skips_missing_geometry:
  "\<not> nullish f \<Longrightarrow> \<not> truthy (property f ''geometry'') \<Longrightarrow> quakePoint P f st = (None, st)"
  by (simp add: quakePoint_def get_def falsy_coordinates)

text \<open>
  C1. A feature without a geometry adds no marker on either path, and the brand path also
  skips every feature whose geometry is not of type Point (the two lemmas above). The
  earthquake path tests only that the geometry has coordinates and never its type: an
  earthquake whose geometry has a pair of numbers for coordinates and a type that is not
  Point, or no type at all, gets a circle marker at those coordinates, where the brand
  path adds nothing for the same feature.
\<close>

theorem quakePoint_ignores_geometry_type:
  assumes "t \<noteq> VStr ''Point''"
  shows "quakePoint P (typedQuake t x y) st =
     (None, addLayer quakes
        \<lparr>lat = VNum (Fin y), lon = VNum (Fin x), shape = Circle (Fin 10) 1 0.6,
         popup = Some (''<b>M '' @ numberToString P (Fin 5) @ ''</b><br>Utah<br><small></small>'')\<rparr> st)
   \<and> geoJSONPoint key popupFn (typedQuake t x y) st = (None, st)
   \<and> quakePoint P (untypedQuake x y) st =
     (None, addLayer quakes
        \<lparr>lat = VNum (Fin y), lon = VNum (Fin x), shape = Circle (Fin 10) 1 0.6,
         popup = Some (''<b>M '' @ numberToString P (Fin 5) @ ''</b><br>Utah<br><small></small>'')\<rparr> st)
   \<and> geoJSONPoint key popupFn (untypedQuake x y) st = (None, st)"
  using assms by (simp add: typedQuake_def untypedQuake_def feature_def code_defs)

theorem quakePoint_ignores_geometry_type_witness:
  "VStr ''MultiPoint'' \<noteq> VStr ''Point''
   \<and> quakePoint (demoPlatform multiPointNet) (typedQuake (VStr ''MultiPoint'') (- 100) 40) demoApp =
     (None, addLayer quakes
        \<lparr>lat = VNum (Fin 40), lon = VNum (Fin (- 100)), shape = Circle (Fin 10) 1 0.6,
         popup = Some ''<b>M 5</b><br>Utah<br><small></small>''\<rparr> demoApp)
   \<and> geoJSONPoint quakes None (typedQuake (VStr ''MultiPoint'') (- 100) 40) demoApp = (None, demoApp)
   \<and> fst (loadQuakes (demoPlatform multiPointNet) demoApp) = None
   \<and> layer quakes (snd (loadQuakes (demoPlatform multiPointNet) demoApp)) =
     ([\<lparr>lat = VNum (Fin 40), lon = VNum (Fin (- 100)), shape = Circle (Fin 10) 1 0.6,
        popup = Some ''<b>M 5</b><br>Utah<br><small></small>''\<rparr>], True)
   \<and> statusEl (snd (loadQuakes (demoPlatform multiPointNet) demoApp)) = ''Loaded earthquakes: 1''"
proof -
  let ?P = "demoPlatform multiPointNet"
  have t: "VStr ''MultiPoint'' \<noteq> VStr ''Point''" by simp
  note q = quakePoint_ignores_geometry_type [OF t, of ?P "- 100" 40 demoApp quakes None]
  have n: "numberToString ?P (Fin 5) = ''5''"
    by (simp add: demoPlatform_def demoNumberToString_def show_nat.simps)
  have a: "quakePoint ?P (typedQuake (VStr ''MultiPoint'') (- 100) 40) demoApp =
     (None, addLayer quakes
        \<lparr>lat = VNum (Fin 40), lon = VNum (Fin (- 100)), shape = Circle (Fin 10) 1 0.6,
         popup = Some ''<b>M 5</b><br>Utah<br><small></small>''\<rparr> demoApp)"
    using q n by simp
  have b: "geoJSONPoint quakes None (typedQuake (VStr ''MultiPoint'') (- 100) 40) demoApp = (None, demoApp)"
    using q by blast
  have l: "fst (loadQuakes ?P demoApp) = None
     \<and> layer quakes (snd (loadQuakes ?P demoApp)) =
       ([\<lparr>lat = VNum (Fin 40), lon = VNum (Fin (- 100)), shape = Circle (Fin 10) 1 0.6,
          popup = Some ''<b>M 5</b><br>Utah<br><small></small>''\<rparr>], True)
     \<and> statusEl (snd (loadQuakes ?P demoApp)) = ''Loaded earthquakes: 1''"
    by (simp add: layer_def multiPointNet_def typedQuake_def demo_defs code_defs)
  show ?thesis using t a b l by blast
qed

subsection \<open>The radius\<close>

text \<open>
  For a magnitude that is a number the radius is twice the magnitude, clamped to the
  range from 4 to 16, and so within the range and monotone.
\<close>

lemma quakeRadius_number:
  "quakeRadius P (VNum (Fin m)) = Inr (Fin (max 4 (min 16 (m * 2))))"
  by (simp add: quakeRadius_def ToNumber_def Math_min_def Math_max_def)

lemma quakeRadius_range:
  "quakeRadius P (VNum (Fin m)) = Inr (Fin r) \<Longrightarrow> 4 \<le> r \<and> r \<le> 16"
  by (auto simp: quakeRadius_number)

lemma quakeRadius_mono:
  "m \<le> n \<Longrightarrow> quakeRadius P (VNum (Fin m)) = Inr (Fin r) \<Longrightarrow>
   quakeRadius P (VNum (Fin n)) = Inr (Fin r') \<Longrightarrow> r \<le> r'"
  by (auto simp: quakeRadius_number)

lemma quakeRadius_examples:
  "quakeRadius P (VNum (Fin 1)) = Inr (Fin 4)
   \<and> quakeRadius P (VNum (Fin 5)) = Inr (Fin 10)
   \<and> quakeRadius P (VNum (Fin 20)) = Inr (Fin 16)"
  by (simp add: quakeRadius_number)

text \<open>
  C6. The radius of an earthquake whose magnitude is absent (or null): the constant
  \<^verbatim>\<open>mag\<close> is then the text \<^verbatim>\<open>?\<close> of the popup, its product with 2 is NaN, and so
  is what \<^verbatim>\<open>Math.min\<close> and \<^verbatim>\<open>Math.max\<close> return: the radius is not within 4 and 16.
\<close>

theorem quakeRadius_without_magnitude:
  "stringToNumber P ''?'' = NaN \<Longrightarrow> nullish (opt_get ps ''mag'') \<Longrightarrow>
   quakeMag ps = VStr ''?'' \<and> quakeRadius P (quakeMag ps) = Inr NaN"
  by (simp add: quakeMag_def js_coalesce_def quakeRadius_def ToNumber_def Math_min_def Math_max_def)

theorem quakeRadius_without_magnitude_witness:
  "stringToNumber (demoPlatform demoNet) ''?'' = NaN
   \<and> nullish (opt_get (VObj [(''mag'', VNull), (''place'', VStr ''Utah'')]) ''mag'')
   \<and> quakeRadius (demoPlatform demoNet) (quakeMag (VObj [(''mag'', VNull), (''place'', VStr ''Utah'')])) = Inr NaN
   \<and> quakePoint (demoPlatform demoNet)
        (feature (point (- 100) 40) (VObj [(''mag'', VNull), (''place'', VStr ''Utah'')])) demoApp =
      (None, addLayer quakes
         \<lparr>lat = VNum (Fin 40), lon = VNum (Fin (- 100)), shape = Circle NaN 1 0.6,
          popup = Some ''<b>M ?</b><br>Utah<br><small></small>''\<rparr> demoApp)"
proof -
  have a: "stringToNumber (demoPlatform demoNet) ''?'' = NaN"
    by (simp add: demoPlatform_def demoStringToNumber_def)
  have b: "nullish (opt_get (VObj [(''mag'', VNull), (''place'', VStr ''Utah'')]) ''mag'')"
    by (simp add: opt_get_def)
  note r = quakeRadius_without_magnitude [OF a b]
  show ?thesis using a b r
    by (simp add: feature_def point_def code_defs)
qed

subsection \<open>The popups\<close>

lemma truthy_not_nullish: "truthy v \<Longrightarrow> \<not> nullish v"
  by (cases v) auto

lemma truthy_opt_get: "truthy (opt_get ps k) \<Longrightarrow> \<not> nullish ps \<and> opt_get ps k = property ps k"
  by (cases "nullish ps") (auto simp: opt_get_def)

lemma quakeTime_cases:
  "quakeTime P ps =
     (if truthy (opt_get ps ''time'') then dateToLocaleString P (opt_get ps ''time'') else Inr [])"
  by (auto simp: quakeTime_def get_def dest: truthy_opt_get)

text \<open>
  C9, as amended. The popup of the marker that the earthquake path adds is
  \<^verbatim>\<open><b>M \<close>, the magnitude, \<^verbatim>\<open></b><br>\<close>, the place, \<^verbatim>\<open><br><small>\<close>, the time,
  \<^verbatim>\<open></small>\<close>, where the magnitude is the text \<^verbatim>\<open>?\<close> when the property is absent or
  null, the place is empty when the property is absent or null, and the time is empty when
  the property is absent or any other falsy value (null, 0, the empty string, false) and
  the locale's rendering of the date otherwise.
\<close>

theorem quake_popup_fallbacks:
  assumes run: "quakePoint P f st = (None, st1)"
    and coords: "truthy (opt_get (property f ''geometry'') ''coordinates'')"
  shows "\<exists>m magText placeText timeText.
      st1 = addLayer quakes m st
    \<and> popup m = Some (''<b>M '' @ magText @ ''</b><br>'' @ placeText @ ''<br><small>'' @ timeText @ ''</small>'')
    \<and> ToString P (quakeMag (property f ''properties'')) = Inr magText
    \<and> ToString P (quakePlace (property f ''properties'')) = Inr placeText
    \<and> quakeTime P (property f ''properties'') = Inr timeText
    \<and> (nullish (opt_get (property f ''properties'') ''mag'') \<longrightarrow> magText = ''?'')
    \<and> (nullish (opt_get (property f ''properties'') ''place'') \<longrightarrow> placeText = [])
    \<and> (\<not> truthy (opt_get (property f ''properties'') ''time'') \<longrightarrow> timeText = [])
    \<and> (truthy (opt_get (property f ''properties'') ''time'') \<longrightarrow>
         dateToLocaleString P (opt_get (property f ''properties'') ''time'') = Inr timeText)"
proof -
  let ?ps = "property f ''properties''"
  have nf: "\<not> nullish f"
    using run by (auto simp: quakePoint_def get_def)
  obtain lon0 lat0 where d: "destructure2 (opt_get (property f ''geometry'') ''coordinates'') = Inr (lon0, lat0)"
    using run nf coords
    by (cases "destructure2 (opt_get (property f ''geometry'') ''coordinates'')")
       (auto simp: quakePoint_def get_def Let_def)
  obtain timeText where t: "quakeTime P ?ps = Inr timeText"
    using run nf coords d by (cases "quakeTime P ?ps") (auto simp: quakePoint_def get_def Let_def)
  obtain r where rad: "quakeRadius P (quakeMag ?ps) = Inr r"
    using run nf coords d t
    by (cases "quakeRadius P (quakeMag ?ps)") (auto simp: quakePoint_def get_def Let_def)
  obtain body where pop: "quakePopup P (quakeMag ?ps) (quakePlace ?ps) timeText = Inr body"
    using run nf coords d t rad
    by (cases "quakePopup P (quakeMag ?ps) (quakePlace ?ps) timeText")
       (auto simp: quakePoint_def get_def Let_def)
  obtain magText where m: "ToString P (quakeMag ?ps) = Inr magText"
    using pop by (cases "ToString P (quakeMag ?ps)") (auto simp: quakePopup_def)
  obtain placeText where p: "ToString P (quakePlace ?ps) = Inr placeText"
    using pop m by (cases "ToString P (quakePlace ?ps)") (auto simp: quakePopup_def)
  have body: "body = ''<b>M '' @ magText @ ''</b><br>'' @ placeText @ ''<br><small>'' @ timeText @ ''</small>''"
    using pop m p by (simp add: quakePopup_def)
  let ?m = "\<lparr>lat = lat0, lon = lon0, shape = Circle r 1 0.6, popup = Some body\<rparr>"
  have st1: "st1 = addLayer quakes ?m st"
    using run nf coords d t rad pop by (simp add: quakePoint_def get_def Let_def)
  have m1: "magText = ''?''" if "nullish (opt_get ?ps ''mag'')"
    using m that by (simp add: quakeMag_def js_coalesce_def)
  have p1: "placeText = []" if "nullish (opt_get ?ps ''place'')"
    using p that by (simp add: quakePlace_def js_coalesce_def)
  have t1: "timeText = []" if "\<not> truthy (opt_get ?ps ''time'')"
    using t that by (simp add: quakeTime_cases)
  have t2: "dateToLocaleString P (opt_get ?ps ''time'') = Inr timeText" if "truthy (opt_get ?ps ''time'')"
    using t that by (simp add: quakeTime_cases)
  have "st1 = addLayer quakes ?m st
    \<and> popup ?m = Some (''<b>M '' @ magText @ ''</b><br>'' @ placeText @ ''<br><small>'' @ timeText @ ''</small>'')
    \<and> ToString P (quakeMag ?ps) = Inr magText
    \<and> ToString P (quakePlace ?ps) = Inr placeText
    \<and> quakeTime P ?ps = Inr timeText
    \<and> (nullish (opt_get ?ps ''mag'') \<longrightarrow> magText = ''?'')
    \<and> (nullish (opt_get ?ps ''place'') \<longrightarrow> placeText = [])
    \<and> (\<not> truthy (opt_get ?ps ''time'') \<longrightarrow> timeText = [])
    \<and> (truthy (opt_get ?ps ''time'') \<longrightarrow> dateToLocaleString P (opt_get ?ps ''time'') = Inr timeText)"
    using st1 body m p t m1 p1 t1 t2 by simp
  then show ?thesis by blast
qed

theorem quake_popup_fallbacks_witness:
  "fst (quakePoint (demoPlatform demoNet) bareQuake demoApp) = None
   \<and> truthy (opt_get (property bareQuake ''geometry'') ''coordinates'')
   \<and> nullish (opt_get (property bareQuake ''properties'') ''mag'')
   \<and> nullish (opt_get (property bareQuake ''properties'') ''place'')
   \<and> \<not> truthy (opt_get (property bareQuake ''properties'') ''time'')
   \<and> (\<exists>m. snd (quakePoint (demoPlatform demoNet) bareQuake demoApp) = addLayer quakes m demoApp
           \<and> popup m = Some ''<b>M ?</b><br><br><small></small>'')"
proof -
  let ?P = "demoPlatform demoNet"
  let ?st1 = "snd (quakePoint ?P bareQuake demoApp)"
  have a: "fst (quakePoint ?P bareQuake demoApp) = None"
    by (simp add: bareQuake_def demo_defs code_defs)
  have run: "quakePoint ?P bareQuake demoApp = (None, ?st1)"
    using a by (simp add: prod_eq_iff)
  have c: "truthy (opt_get (property bareQuake ''geometry'') ''coordinates'')"
    by (simp add: bareQuake_def feature_def point_def opt_get_def)
  have n1: "nullish (opt_get (property bareQuake ''properties'') ''mag'')"
    by (simp add: bareQuake_def feature_def opt_get_def)
  have n2: "nullish (opt_get (property bareQuake ''properties'') ''place'')"
    by (simp add: bareQuake_def feature_def opt_get_def)
  have n3: "\<not> truthy (opt_get (property bareQuake ''properties'') ''time'')"
    by (simp add: bareQuake_def feature_def opt_get_def)
  obtain m magText placeText timeText where
    "?st1 = addLayer quakes m demoApp"
    "popup m = Some (''<b>M '' @ magText @ ''</b><br>'' @ placeText @ ''<br><small>'' @ timeText @ ''</small>'')"
    "nullish (opt_get (property bareQuake ''properties'') ''mag'') \<longrightarrow> magText = ''?''"
    "nullish (opt_get (property bareQuake ''properties'') ''place'') \<longrightarrow> placeText = []"
    "\<not> truthy (opt_get (property bareQuake ''properties'') ''time'') \<longrightarrow> timeText = []"
    using quake_popup_fallbacks [OF run c] by blast
  then have "?st1 = addLayer quakes m demoApp \<and> popup m = Some ''<b>M ?</b><br><br><small></small>''"
    using n1 n2 n3 by simp
  then show ?thesis using a c n1 n2 n3 by blast
qed

text \<open>
  C9 as stated fails for a timestamp that is present and falsy: the time 0, the first
  instant of 1970, is not absent, and the popup shows no time for it, where the locale's
  rendering of that date is not empty.
\<close>

theorem quake_popup_time_zero:
  "opt_get (VObj [(''mag'', VNum (Fin 5)), (''place'', VStr ''Utah''), (''time'', VNum (Fin 0))]) ''time''
     = VNum (Fin 0)
   \<and> dateToLocaleString (demoPlatform demoNet) (VNum (Fin 0)) = Inr ''1/1/1970, 12:00:00 AM''
   \<and> quakeTime (demoPlatform demoNet)
        (VObj [(''mag'', VNum (Fin 5)), (''place'', VStr ''Utah''), (''time'', VNum (Fin 0))]) = Inr []
   \<and> quakePoint (demoPlatform demoNet)
        (feature (point (- 100) 40)
           (VObj [(''mag'', VNum (Fin 5)), (''place'', VStr ''Utah''), (''time'', VNum (Fin 0))])) demoApp =
      (None, addLayer quakes
         \<lparr>lat = VNum (Fin 40), lon = VNum (Fin (- 100)), shape = Circle (Fin 10) 1 0.6,
          popup = Some ''<b>M 5</b><br>Utah<br><small></small>''\<rparr> demoApp)"
  by (simp add: demo_defs code_defs)

text \<open>
  C10. In the popup of a brand marker a name that is falsy (absent, null, the empty
  string, 0, false) is replaced by \<^verbatim>\<open>Unknown\<close>, and an id that is falsy by the empty
  string, whether or not the property is present.
\<close>

theorem brandPopup_fallbacks:
  assumes "\<not> nullish f"
  shows "(\<not> truthy (opt_get (property f ''properties'') ''name'') \<longrightarrow>
            brandName (property f ''properties'') = VStr ''Unknown''
          \<and> brandPopup P f =
              (case ToString P (brandId (property f ''properties'')) of
                 Inl e \<Rightarrow> Inl e
               | Inr idText \<Rightarrow> Inr (''<b>Unknown</b><br><small>'' @ idText @ ''</small>'')))
       \<and> (\<not> truthy (opt_get (property f ''properties'') ''id'') \<longrightarrow>
            brandId (property f ''properties'') = VStr []
          \<and> brandPopup P f =
              (case ToString P (brandName (property f ''properties'')) of
                 Inl e \<Rightarrow> Inl e
               | Inr nameText \<Rightarrow> Inr (''<b>'' @ nameText @ ''</b><br><small></small>'')))
       \<and> (\<not> truthy (opt_get (property f ''properties'') ''name'')
          \<and> \<not> truthy (opt_get (property f ''properties'') ''id'') \<longrightarrow>
            brandPopup P f = Inr ''<b>Unknown</b><br><small></small>'')"
  using assms
  by (auto simp: brandPopup_def brandName_def brandId_def js_or_def get_def split: sum.splits)

theorem brandPopup_fallbacks_witness:
  "\<not> nullish namelessStore
   \<and> opt_get (property namelessStore ''properties'') ''name'' = VStr []
   \<and> opt_get (property namelessStore ''properties'') ''id'' = VNum (Fin 0)
   \<and> brandPopup (demoPlatform demoNet) namelessStore = Inr ''<b>Unknown</b><br><small></small>''
   \<and> geoJSONPoint mcd (Some (brandPopup (demoPlatform demoNet))) namelessStore demoApp =
       (None, addLayer mcd
          \<lparr>lat = VNum (Fin 35), lon = VNum (Fin (- 98)), shape = Pin,
           popup = Some ''<b>Unknown</b><br><small></small>''\<rparr> demoApp)"
proof -
  have a: "\<not> nullish namelessStore"
    by (simp add: namelessStore_def feature_def)
  have b: "opt_get (property namelessStore ''properties'') ''name'' = VStr []"
    by (simp add: namelessStore_def feature_def opt_get_def)
  have c: "opt_get (property namelessStore ''properties'') ''id'' = VNum (Fin 0)"
    by (simp add: namelessStore_def feature_def opt_get_def)
  have d: "brandPopup (demoPlatform demoNet) namelessStore = Inr ''<b>Unknown</b><br><small></small>''"
    by (rule brandPopup_fallbacks [OF a, THEN conjunct2, THEN conjunct2, THEN mp]) (simp add: b c)
  have "geoJSONPoint mcd (Some (brandPopup (demoPlatform demoNet))) namelessStore demoApp =
       (None, addLayer mcd
          \<lparr>lat = VNum (Fin 35), lon = VNum (Fin (- 98)), shape = Pin,
           popup = Some ''<b>Unknown</b><br><small></small>''\<rparr> demoApp)"
    using d by (simp add: geoJSONPoint_def namelessStore_def feature_def point_def get_def destructure2_def elem_def)
  then show ?thesis using a b c d by simp
qed

section \<open>The queries\<close>



text \<open>
  C7, as amended. A query fails in three ways and no other. A response that is not ok
  gives an Error whose message is the status code and the status text. On a response that
  is ok the query fails with whatever \<^verbatim>\<open>r.json()\<close> rejects with, passed on as it is:
  the SyntaxError of a body that is not JSON, which is no Error. And when \<^verbatim>\<open>fetch\<close>
  itself rejects, no response having arrived, the query fails with what it rejected with,
  passed on as it is.
\<close>

theorem fetchJSON_failures:
  "(fetch P url = Inr r \<and> \<not> ok r \<longrightarrow>
      fst (fetchJSON P url st) =
      Inl (Error (numberToString P (Fin (real (status r))) @ '' '' @ statusText r)))
   \<and> (fetch P url = Inr r \<and> ok r \<longrightarrow> fst (fetchJSON P url st) = json r)
   \<and> (fetch P url = Inr r \<and> ok r \<and> json r = Inl (SyntaxError m) \<longrightarrow>
      fst (fetchJSON P url st) = Inl (SyntaxError m)
      \<and> error_name (SyntaxError m) \<noteq> error_name (Error m'))
   \<and> (fetch P url = Inl e \<longrightarrow> fst (fetchJSON P url st) = Inl e)
   \<and> (fst (fetchJSON P url st) = Inl e \<longrightarrow>
        (\<exists>r'. fetch P url = Inr r' \<and> \<not> ok r'
            \<and> e = Error (numberToString P (Fin (real (status r'))) @ '' '' @ statusText r'))
      \<or> (\<exists>r'. fetch P url = Inr r' \<and> ok r' \<and> json r' = Inl e)
      \<or> fetch P url = Inl e)"
  by (auto simp: fetchJSON_def Let_def split: sum.splits)

theorem fetchJSON_failures_witness:
  "fst (fetchJSON (demoPlatform demoNet)
     ''http://localhost:8088/api/osm/brand?brand=starbucks&bbox=30.00000,-100.00000,40.00000,-90.00000''
     demoApp) = Inl (Error ''500 Internal Server Error'')
   \<and> fst (fetchJSON (demoPlatform htmlNet) ''http://localhost:8088/api/usgs/quakes'' demoApp) =
       Inl (SyntaxError ''Unexpected token <'')
   \<and> fst (fetchJSON (demoPlatform droppedNet) ''http://localhost:8088/api/usgs/quakes'' demoApp) =
       Inl (TypeError ''network error'')
   \<and> fst (fetchJSON (demoPlatform offlineNet) ''http://localhost:8088/api/usgs/quakes'' demoApp) =
       Inl (TypeError ''Failed to fetch'')"
proof -
  let ?u = "''http://localhost:8088/api/osm/brand?brand=starbucks&bbox=30.00000,-100.00000,40.00000,-90.00000''"
  let ?q = "''http://localhost:8088/api/usgs/quakes''"
  let ?r = "\<lparr>ok = False, status = 500, statusText = ''Internal Server Error'',
             json = Inl (SyntaxError ''Unexpected token'')\<rparr>"
  let ?h = "\<lparr>ok = True, status = 200, statusText = ''OK'', json = Inl (SyntaxError ''Unexpected token <'')\<rparr>"
  let ?d = "\<lparr>ok = True, status = 200, statusText = ''OK'', json = Inl (TypeError ''network error'')\<rparr>"
  have a: "fetch (demoPlatform demoNet) ?u = Inr ?r \<and> \<not> ok ?r"
    by (simp add: demoPlatform_def demoNet_def)
  have b: "fetch (demoPlatform htmlNet) ?q = Inr ?h \<and> ok ?h"
    by (simp add: demoPlatform_def htmlNet_def)
  have c: "fetch (demoPlatform droppedNet) ?q = Inr ?d \<and> ok ?d"
    by (simp add: demoPlatform_def droppedNet_def)
  have d: "fetch (demoPlatform offlineNet) ?q = Inl (TypeError ''Failed to fetch'')"
    by (simp add: demoPlatform_def offlineNet_def)
  have "fst (fetchJSON (demoPlatform demoNet) ?u demoApp) =
      Inl (Error (numberToString (demoPlatform demoNet) (Fin (real (status ?r))) @ '' '' @ statusText ?r))"
    by (rule fetchJSON_failures [THEN conjunct1, THEN mp]) (rule a)
  moreover have "fst (fetchJSON (demoPlatform htmlNet) ?q demoApp) = json ?h"
    by (rule fetchJSON_failures [THEN conjunct2, THEN conjunct1, THEN mp]) (rule b)
  moreover have "fst (fetchJSON (demoPlatform droppedNet) ?q demoApp) = json ?d"
    by (rule fetchJSON_failures [THEN conjunct2, THEN conjunct1, THEN mp]) (rule c)
  moreover have "fst (fetchJSON (demoPlatform offlineNet) ?q demoApp) = Inl (TypeError ''Failed to fetch'')"
    by (rule fetchJSON_failures [THEN conjunct2, THEN conjunct2, THEN conjunct2, THEN conjunct1, THEN mp])
       (rule d)
  ultimately show ?thesis
    by (simp add: demoPlatform_def demoNumberToString_def show_nat.simps)
qed

text \<open>
  C7 as stated fails when the network is down or the connection is lost while the body of
  an ok response is read: the query fails with a TypeError, which is neither the Error of
  a response that is not ok nor the SyntaxError of a malformed body; the refresh reports
  it like the others.
\<close>

theorem fetchJSON_transport_failure:
  "fst (fetchJSON (demoPlatform offlineNet) ''http://localhost:8088/api/usgs/quakes'' demoApp) =
     Inl (TypeError ''Failed to fetch'')
   \<and> fst (fetchJSON (demoPlatform droppedNet) ''http://localhost:8088/api/usgs/quakes'' demoApp) =
     Inl (TypeError ''network error'')
   \<and> error_name (TypeError ''Failed to fetch'') \<noteq> ''Error''
   \<and> error_name (TypeError ''Failed to fetch'') \<noteq> ''SyntaxError''
   \<and> statusEl (refresh (demoPlatform offlineNet) (demoApp\<lparr>layerQuakes := True\<rparr>)) = ''Error: Failed to fetch''"
  by (simp add: offlineNet_def droppedNet_def demo_defs code_defs refresh_def loading_def)

end
